theory Spec2Isabelle
  imports Complex_Main "HOL-Library.Word" "HOL-Library.Sublist"
begin

section \<open>Python values the translator works on\<close>

text \<open>
  The program is \<^verbatim>\<open>english_translator.py\<close>: a class \<^verbatim>\<open>RealtimeTranslator\<close> whose
  capture thread puts audio blocks on a queue and whose processing thread takes them off,
  writes each one to a temporary WAV file, runs \<^verbatim>\<open>whisper-cli\<close> on it and sends the text
  to a local Ollama server.

  Exceptions are values. Only subclasses of \<^verbatim>\<open>Exception\<close> appear: they are what the calls
  of the program raise and what its \<^verbatim>\<open>except Exception\<close> clauses catch.
\<close>

datatype exn =
    TimeoutExpired
  | CalledProcessError
  | RequestException
  | ZeroDivisionError
  | UnboundLocalError
  | FileNotFoundError
  | PortAudioError
  | OtherException string

text \<open>\<^verbatim>\<open>str(e)\<close>, as the f-strings of the program format an exception.\<close>

fun str_exn :: "exn \<Rightarrow> string" where
  "str_exn TimeoutExpired = ''timed out''"
| "str_exn CalledProcessError = ''returned non-zero exit status''"
| "str_exn RequestException = ''request failed''"
| "str_exn ZeroDivisionError = ''division by zero''"
| "str_exn UnboundLocalError = ''cannot access local variable tmp_filename''"
| "str_exn FileNotFoundError = ''No such file or directory''"
| "str_exn PortAudioError = ''Error opening InputStream''"
| "str_exn (OtherException msg) = msg"

text \<open>
  Strings are byte strings here. \<^verbatim>\<open>str.strip()\<close> removes the white space of ASCII at both
  ends; \<^verbatim>\<open>sub in s\<close> is the substring test.
\<close>

definition isspace :: "char \<Rightarrow> bool" where
  "isspace c = (c = CHR '' '' \<or> c = CHR 0x09 \<or> c = CHR 0x0A \<or> c = CHR 0x0B \<or> c = CHR 0x0C
     \<or> c = CHR 0x0D \<or> c = CHR 0x1C \<or> c = CHR 0x1D \<or> c = CHR 0x1E \<or> c = CHR 0x1F)"

definition strip :: "string \<Rightarrow> string" where
  "strip s = rev (dropWhile isspace (rev (dropWhile isspace s)))"

fun startswith :: "string \<Rightarrow> string \<Rightarrow> bool" where
  "startswith s [] = True"
| "startswith [] (p # ps) = False"
| "startswith (c # cs) (p # ps) = (c = p \<and> startswith cs ps)"

fun contains :: "string \<Rightarrow> string \<Rightarrow> bool" where
  "contains sub [] = (sub = [])"
| "contains sub (c # cs) = (startswith (c # cs) sub \<or> contains sub cs)"

definition BLANK_AUDIO :: string where
  "BLANK_AUDIO = ''[BLANK_AUDIO]''"

definition LANGUAGE :: string where
  "LANGUAGE = ''Spanish''"

definition LLM_MODEL :: string where
  "LLM_MODEL = ''gemma3:4b''"

definition nl :: string where
  "nl = [CHR 0x0A]"

subsection \<open>Paths (\<^verbatim>\<open>posixpath\<close>)\<close>

text \<open>
  \<^verbatim>\<open>os.path.dirname\<close> cuts after the last slash and then drops trailing slashes, unless
  the head is all slashes; \<^verbatim>\<open>os.path.join\<close> restarts at a component that begins with a
  slash and otherwise appends with one slash between.
\<close>

definition dirname :: "string \<Rightarrow> string" where
  "dirname p =
     (let head = rev (dropWhile (\<lambda>c. c \<noteq> CHR ''/'') (rev p))
      in if head \<noteq> [] \<and> filter (\<lambda>c. c \<noteq> CHR ''/'') head \<noteq> []
         then rev (dropWhile (\<lambda>c. c = CHR ''/'') (rev head))
         else head)"

definition join2 :: "string \<Rightarrow> string \<Rightarrow> string" where
  "join2 path b =
     (if startswith b ''/'' then b
      else if path = [] \<or> last path = CHR ''/'' then path @ b
      else path @ ''/'' @ b)"

definition path_join :: "string \<Rightarrow> string list \<Rightarrow> string" where
  "path_join a ps = foldl join2 a ps"

subsection \<open>Samples and their quantisation\<close>

text \<open>
  A sample is a finite floating-point number, read as the real number it denotes. The
  block the driver hands to the callback is a two-dimensional array, one row per frame;
  \<^verbatim>\<open>flatten()\<close> concatenates the rows.
\<close>

type_synonym chunk = "real list list"

type_synonym int16 = "16 word"

definition flatten :: "chunk \<Rightarrow> real list" where
  "flatten audio_chunk = concat audio_chunk"

text \<open>
  \<^verbatim>\<open>scipy.signal.resample\<close> and the value \<^verbatim>\<open>astype(np.int16)\<close> gives to a number outside
  the range of the type are not code of this repository: they are parameters. The cast of
  a number in range discards the fractional part.
\<close>

record extern =
  resample :: "real list \<Rightarrow> nat \<Rightarrow> real list"
  astype_out_of_range :: "real \<Rightarrow> int16"

definition trunc :: "real \<Rightarrow> int" where
  "trunc x = (if 0 \<le> x then \<lfloor>x\<rfloor> else \<lceil>x\<rceil>)"

definition astype_int16 :: "extern \<Rightarrow> real \<Rightarrow> int16" where
  "astype_int16 L x =
     (if - 32769 < x \<and> x < 32768 then word_of_int (trunc x) else astype_out_of_range L x)"

text \<open>
  Line 113: \<^verbatim>\<open>(audio_resampled * 32767).astype(np.int16)\<close>, one sample of it. The
  product is the exact one: the rounding of the floating-point multiplication is not
  modelled.
\<close>

definition quantize :: "extern \<Rightarrow> real \<Rightarrow> int16" where
  "quantize L x = astype_int16 L (x * 32767)"

text \<open>
  Line 111: \<^verbatim>\<open>int(len(audio_array) * self.target_sample_rate / self.sample_rate)\<close>. The
  product is an integer, the division is the true division and \<^verbatim>\<open>int\<close> discards the
  fractional part: for natural numbers below \<open>2 ^ 53\<close> that is the integer quotient. The
  caller raises \<^verbatim>\<open>ZeroDivisionError\<close> when the rate is zero.
\<close>

definition num_samples_of :: "nat \<Rightarrow> nat \<Rightarrow> nat \<Rightarrow> nat" where
  "num_samples_of n target_rate rate = (n * target_rate) div rate"

text \<open>
  The claims about the quantisation compare it with what the specification describes:
  rounding to the nearest integer, then clamping to the range of the type.
\<close>

definition spec_quantize :: "real \<Rightarrow> int" where
  "spec_quantize x = max (- 32768) (min 32767 (round (x * 32767)))"

section \<open>The world outside the program\<close>

text \<open>
  The file system maps a path to a file; only WAV files have a content the model looks
  at. What the program does to the outside is written down as events, in order: a line
  on standard output, a line wrapped by \<^verbatim>\<open>textwrap.fill(s, width=80,
  subsequent_indent="   ")\<close>, a line on standard error, the traceback of a thread that
  died, a child process, a request to the translation service.
\<close>

datatype content = Opaque | Wav nat "int16 list"

type_synonym filesystem = "string \<rightharpoonup> content"

datatype event =
    Print string
  | PrintWrapped string
  | PrintErr string
  | Traceback exn
  | Subprocess "string list"
  | HttpPost string

record world =
  files :: filesystem
  out :: "event list"

definition emit :: "event \<Rightarrow> world \<Rightarrow> world" where
  "emit e w = w\<lparr>out := out w @ [e]\<rparr>"

definition os_path_exists :: "filesystem \<Rightarrow> string \<Rightarrow> bool" where
  "os_path_exists fs p = (fs p \<noteq> None)"

text \<open>\<^verbatim>\<open>os.remove\<close> deletes an existing file and raises when there is none.\<close>

definition os_remove :: "string \<Rightarrow> world \<Rightarrow> exn + world" where
  "os_remove p w =
     (if os_path_exists (files w) p then Inr (w\<lparr>files := (files w)(p := None)\<rparr>)
      else Inl FileNotFoundError)"

text \<open>
  What the outside answers while one chunk is processed: the temporary file's name or the
  exception of \<^verbatim>\<open>NamedTemporaryFile\<close>; an exception of the resample-and-save lines
  (110 to 114), if any; the standard output of \<^verbatim>\<open>whisper-cli\<close> or the exception of
  \<^verbatim>\<open>subprocess.run\<close>; the \<^verbatim>\<open>response\<close> field of the service's answer or the exception of
  lines 165 to 176.
\<close>

record chunk_env =
  tmp_file :: "exn + string"
  wav_write :: "exn option"
  whisper :: "exn + string"
  ollama :: "exn + string"

section \<open>The translator object\<close>

text \<open>
  The fields of \<^verbatim>\<open>RealtimeTranslator\<close>. A thread attribute is \<open>None\<close> until \<^verbatim>\<open>start\<close>
  sets it (\<^verbatim>\<open>hasattr\<close> is false); a thread is where its function stands. The queue is a
  \<^verbatim>\<open>queue.Queue\<close>: \<^verbatim>\<open>put\<close> appends, \<^verbatim>\<open>get\<close> takes the first. Each block carries the
  number of blocks put before it, which the program does not read: it names the chunk in
  the trace.
\<close>

datatype rec_thread = RecStarting | RecStreaming | RecExited

datatype proc_thread = ProcLoopHead | ProcWaiting | ProcBusy nat chunk | ProcExited

record translator =
  is_running :: bool
  sample_rate :: nat
  target_sample_rate :: nat
  chunk_duration :: nat
  audio_queue :: "(nat \<times> chunk) list"
  model_path :: string
  binary_path :: string
  recording_thread :: "rec_thread option"
  processing_thread :: "proc_thread option"

text \<open>Lines 30 and 31: where \<^verbatim>\<open>whisper-cli\<close> is looked for, from the path of the model.\<close>

definition binary_path_of :: "string \<Rightarrow> string" where
  "binary_path_of mpath =
     (let whisper_cpp_dir = dirname (dirname mpath)
      in path_join whisper_cpp_dir [''build'', ''bin'', ''whisper-cli''])"

text \<open>
  \<^verbatim>\<open>__init__\<close> (lines 21 to 39): the object, or the exit status of \<^verbatim>\<open>sys.exit\<close>, with
  what was printed.
\<close>

definition init :: "filesystem \<Rightarrow> string \<Rightarrow> (nat + translator) \<times> event list" where
  "init fs mpath =
     (let bpath = binary_path_of mpath
      in if \<not> os_path_exists fs bpath
         then (Inl 1, [Print (''Binary not found: '' @ bpath)])
         else if \<not> os_path_exists fs mpath
         then (Inl 1, [Print (''Model not found: '' @ mpath)])
         else (Inr \<lparr>is_running = False, sample_rate = 44100, target_sample_rate = 16000,
                    chunk_duration = 2, audio_queue = [], model_path = mpath,
                    binary_path = bpath, recording_thread = None,
                    processing_thread = None\<rparr>, []))"

text \<open>Line 61: \<^verbatim>\<open>int(self.sample_rate * self.chunk_duration)\<close>, the block size.\<close>

definition chunk_samples :: "translator \<Rightarrow> nat" where
  "chunk_samples self = sample_rate self * chunk_duration self"

section \<open>Processing one chunk\<close>

text \<open>
  Lines 110 to 113, the resample-and-quantize transformation: the samples written to the
  WAV file.
\<close>

definition resampled :: "extern \<Rightarrow> translator \<Rightarrow> chunk \<Rightarrow> real list" where
  "resampled L self audio_chunk =
     (let audio_array = flatten audio_chunk;
          num_samples = num_samples_of (length audio_array) (target_sample_rate self)
                          (sample_rate self)
      in resample L audio_array num_samples)"

definition pcm16 :: "extern \<Rightarrow> translator \<Rightarrow> chunk \<Rightarrow> int16 list" where
  "pcm16 L self audio_chunk = map (quantize L) (resampled L self audio_chunk)"

text \<open>Lines 110 to 114, with the write to the temporary file.\<close>

definition resample_and_save ::
  "extern \<Rightarrow> translator \<Rightarrow> chunk_env \<Rightarrow> chunk \<Rightarrow> string \<Rightarrow> world \<Rightarrow> exn + world" where
  "resample_and_save L self env audio_chunk tmp_filename w =
     (if sample_rate self = 0 then Inl ZeroDivisionError
      else case wav_write env of
             Some e \<Rightarrow> Inl e
           | None \<Rightarrow>
               Inr (w\<lparr>files := (files w)(tmp_filename \<mapsto>
                      Wav (target_sample_rate self) (pcm16 L self audio_chunk))\<rparr>))"

text \<open>
  The two \<^verbatim>\<open>except\<close> clauses of \<^verbatim>\<open>_transcribe_chunk\<close> (lines 140 to 148). When
  \<^verbatim>\<open>NamedTemporaryFile\<close> itself raised, \<^verbatim>\<open>tmp_filename\<close> is unbound and reading it raises
  out of the handler.
\<close>

definition transcribe_except ::
  "exn \<Rightarrow> string option \<Rightarrow> world \<Rightarrow> (exn + string option) \<times> world" where
  "transcribe_except e tmp w =
     (let w1 = (if e = TimeoutExpired then emit (Print (nl @ ''Transcription timeout'')) w
                else w)
      in case tmp of
           None \<Rightarrow> (Inl UnboundLocalError, w1)
         | Some tmp_filename \<Rightarrow>
             if os_path_exists (files w1) tmp_filename
             then (case os_remove tmp_filename w1 of
                     Inl e' \<Rightarrow> (Inl e', w1)
                   | Inr w2 \<Rightarrow> (Inr None, w2))
             else (Inr None, w1))"

definition whisper_cmd :: "translator \<Rightarrow> string \<Rightarrow> string list" where
  "whisper_cmd self tmp_filename =
     [binary_path self, ''-f'', tmp_filename, ''-m'', model_path self, ''-l'', ''en'',
      ''-t'', ''4'', ''-nt'']"

text \<open>
  \<^verbatim>\<open>_transcribe_chunk\<close> (lines 102 to 148): the transcription, \<open>None\<close>, or the exception
  that leaves the function.
\<close>

definition transcribe_chunk ::
  "extern \<Rightarrow> translator \<Rightarrow> chunk_env \<Rightarrow> chunk \<Rightarrow> world \<Rightarrow> (exn + string option) \<times> world" where
  "transcribe_chunk L self env audio_chunk w =
     (case tmp_file env of
        Inl e \<Rightarrow> transcribe_except e None w
      | Inr tmp_filename \<Rightarrow>
          (let w1 = w\<lparr>files := (files w)(tmp_filename \<mapsto> Opaque)\<rparr>
           in (case resample_and_save L self env audio_chunk tmp_filename w1 of
                 Inl e \<Rightarrow> transcribe_except e (Some tmp_filename) w1
               | Inr w2 \<Rightarrow>
                   (let w3 = emit (Subprocess (whisper_cmd self tmp_filename)) w2
                    in (case whisper env of
                          Inl e \<Rightarrow> transcribe_except e (Some tmp_filename) w3
                        | Inr stdout \<Rightarrow>
                            (case os_remove tmp_filename w3 of
                               Inl e \<Rightarrow> transcribe_except e (Some tmp_filename) w3
                             | Inr w4 \<Rightarrow>
                                 (let transcription = strip stdout
                                  in (Inr (if transcription \<noteq> [] then Some transcription
                                           else None), w4))))))))"

definition prompt :: "string \<Rightarrow> string" where
  "prompt txt =
     nl @ ''You are a professional translator. Your task is to translate English text into natural, fluent ''
        @ LANGUAGE @ ''.'' @ nl
     @ nl @ ''Rules:'' @ nl
     @ ''- Output ONLY the '' @ LANGUAGE @ '' translation.'' @ nl
     @ ''- Do not include explanations, notes, or any additional text.'' @ nl
     @ ''- Preserve the original meaning, tone, and style.'' @ nl
     @ nl @ ''English: '' @ txt @ nl
     @ nl @ ''Spanish:'' @ nl"

text \<open>\<^verbatim>\<open>_translate_text\<close> (lines 150 to 183): it never raises.\<close>

definition translate_text :: "chunk_env \<Rightarrow> string \<Rightarrow> world \<Rightarrow> string option \<times> world" where
  "translate_text env txt w =
     (let w1 = emit (HttpPost (prompt txt)) w
      in case ollama env of
           Inl e \<Rightarrow>
             if e = RequestException
             then (None, emit (Print (nl @ ''Translation error: '' @ str_exn e)) w1)
             else (None, w1)
         | Inr response \<Rightarrow> (Some (strip response), w1))"

text \<open>\<^verbatim>\<open>_print_translation\<close> (lines 185 to 193).\<close>

definition print_translation' :: "string \<Rightarrow> string \<Rightarrow> world \<Rightarrow> world" where
  "print_translation' original translation w = emit (PrintWrapped ('' '' @ translation)) w"

text \<open>
  The body of the loop of \<^verbatim>\<open>_process_chunks\<close> after \<^verbatim>\<open>get\<close> returned a chunk (lines 86
  to 95, and the clause of line 99).
\<close>

definition process_chunk :: "extern \<Rightarrow> translator \<Rightarrow> chunk_env \<Rightarrow> chunk \<Rightarrow> world \<Rightarrow> world" where
  "process_chunk L self env audio_chunk w =
     (case transcribe_chunk L self env audio_chunk w of
        (Inl e, w1) \<Rightarrow> emit (Print (nl @ ''Error processing chunk: '' @ str_exn e)) w1
      | (Inr None, w1) \<Rightarrow> w1
      | (Inr (Some transcription), w1) \<Rightarrow>
          if transcription \<noteq> [] \<and> \<not> contains BLANK_AUDIO transcription
          then (case translate_text env transcription w1 of
                  (None, w2) \<Rightarrow> w2
                | (Some translation, w2) \<Rightarrow>
                    if translation \<noteq> [] then print_translation' transcription translation w2
                    else w2)
          else w1)"

section \<open>The threads\<close>

text \<open>
  The trace of the whole program says who did what: the callback put block \<open>n\<close>, the
  processing thread got block \<open>n\<close>, an event of the processing thread while it worked on
  block \<open>n\<close>, an event of the main thread, of the recording thread, of the audio driver's
  thread.
\<close>

datatype sys_event =
    Put nat chunk
  | Get nat chunk
  | During nat event
  | Main event
  | Recorder event
  | Driver event

record state =
  obj :: translator
  disk :: filesystem
  trace :: "sys_event list"

fun puts :: "sys_event list \<Rightarrow> (nat \<times> chunk) list" where
  "puts [] = []"
| "puts (Put n c # tr) = (n, c) # puts tr"
| "puts (e # tr) = puts tr"

fun gets :: "sys_event list \<Rightarrow> (nat \<times> chunk) list" where
  "gets [] = []"
| "gets (Get n c # tr) = (n, c) # gets tr"
| "gets (e # tr) = gets tr"

text \<open>
  What can happen next, as the scheduler and the outside choose: the recording thread
  enters \<^verbatim>\<open>with sd.InputStream(...)\<close> and the device opens or does not; the driver calls
  the callback with its status flags and a block; the recording thread tests the flag and
  sleeps; the processing thread tests the flag; its \<^verbatim>\<open>get\<close> returns or times out; the
  calls it made for the chunk in hand come back.
\<close>

datatype action =
    RecOpen bool
  | Callback "string option" chunk
  | RecPoll
  | ProcTest
  | ProcGet
  | ProcFinish chunk_env

text \<open>The callback of \<^verbatim>\<open>_record_chunks\<close> (lines 63 to 68).\<close>

definition callback :: "string option \<Rightarrow> chunk \<Rightarrow> state \<Rightarrow> state" where
  "callback status indata s =
     (let s1 = (case status of
                  None \<Rightarrow> s
                | Some flags \<Rightarrow>
                    s\<lparr>trace := trace s @ [Driver (PrintErr (''Audio status: '' @ flags))]\<rparr>)
      in if is_running (obj s1)
         then (let n = length (puts (trace s1))
               in s1\<lparr>obj := (obj s1)\<lparr>audio_queue := audio_queue (obj s1) @ [(n, indata)]\<rparr>,
                     trace := trace s1 @ [Put n indata]\<rparr>)
         else s1)"

text \<open>
  \<^verbatim>\<open>_record_chunks\<close> (lines 59 to 77). An exception of \<^verbatim>\<open>sd.InputStream\<close> is caught by
  nothing: it ends the thread, whose traceback goes to standard error.
\<close>

definition rec_open :: "bool \<Rightarrow> state \<Rightarrow> state" where
  "rec_open device_ok s =
     (if recording_thread (obj s) = Some RecStarting
      then (if device_ok then s\<lparr>obj := (obj s)\<lparr>recording_thread := Some RecStreaming\<rparr>\<rparr>
            else s\<lparr>obj := (obj s)\<lparr>recording_thread := Some RecExited\<rparr>,
                   trace := trace s @ [Recorder (Traceback PortAudioError)]\<rparr>)
      else s)"

definition rec_poll :: "state \<Rightarrow> state" where
  "rec_poll s =
     (if recording_thread (obj s) = Some RecStreaming
      then (if is_running (obj s) then s
            else s\<lparr>obj := (obj s)\<lparr>recording_thread := Some RecExited\<rparr>\<rparr>)
      else s)"

text \<open>
  \<^verbatim>\<open>_process_chunks\<close> (lines 79 to 100), one step at a time: the test of the loop, the
  \<^verbatim>\<open>get\<close> (\<^verbatim>\<open>queue.Empty\<close> goes back to the test), and the rest of the body.
\<close>

definition proc_test :: "state \<Rightarrow> state" where
  "proc_test s =
     (if processing_thread (obj s) = Some ProcLoopHead
      then (if is_running (obj s) then s\<lparr>obj := (obj s)\<lparr>processing_thread := Some ProcWaiting\<rparr>\<rparr>
            else s\<lparr>obj := (obj s)\<lparr>processing_thread := Some ProcExited\<rparr>\<rparr>)
      else s)"

definition proc_get :: "state \<Rightarrow> state" where
  "proc_get s =
     (if processing_thread (obj s) = Some ProcWaiting
      then (case audio_queue (obj s) of
              [] \<Rightarrow> s\<lparr>obj := (obj s)\<lparr>processing_thread := Some ProcLoopHead\<rparr>\<rparr>
            | (n, c) # q \<Rightarrow>
                s\<lparr>obj := (obj s)\<lparr>audio_queue := q, processing_thread := Some (ProcBusy n c)\<rparr>,
                  trace := trace s @ [Get n c]\<rparr>)
      else s)"

definition proc_finish :: "extern \<Rightarrow> chunk_env \<Rightarrow> state \<Rightarrow> state" where
  "proc_finish L env s =
     (case processing_thread (obj s) of
        Some (ProcBusy n c) \<Rightarrow>
          (let w = process_chunk L (obj s) env c \<lparr>files = disk s, out = []\<rparr>
           in s\<lparr>obj := (obj s)\<lparr>processing_thread := Some ProcLoopHead\<rparr>,
                disk := files w,
                trace := trace s @ map (During n) (out w)\<rparr>)
      | _ \<Rightarrow> s)"

fun step :: "extern \<Rightarrow> action \<Rightarrow> state \<Rightarrow> state" where
  "step L (RecOpen device_ok) s = rec_open device_ok s"
| "step L (Callback status indata) s =
     (if recording_thread (obj s) = Some RecStreaming then callback status indata s else s)"
| "step L RecPoll s = rec_poll s"
| "step L ProcTest s = proc_test s"
| "step L ProcGet s = proc_get s"
| "step L (ProcFinish env) s = proc_finish L env s"

fun run :: "extern \<Rightarrow> action list \<Rightarrow> state \<Rightarrow> state" where
  "run L [] s = s"
| "run L (a # sched) s = run L sched (step L a s)"

section \<open>Start and stop\<close>

text \<open>
  The program as it stands after \<^verbatim>\<open>RealtimeTranslator()\<close>: a state, or the exit status
  and the lines printed before it.
\<close>

definition boot :: "filesystem \<Rightarrow> string \<Rightarrow> (nat \<times> event list) + state" where
  "boot fs mpath =
     (case init fs mpath of
        (Inl status, printed) \<Rightarrow> Inl (status, printed)
      | (Inr self, printed) \<Rightarrow> Inr \<lparr>obj = self, disk = fs, trace = map Main printed\<rparr>)"

text \<open>\<^verbatim>\<open>start\<close> (lines 41 to 57).\<close>

definition start :: "state \<Rightarrow> state" where
  "start s =
     (if is_running (obj s) then s
      else s\<lparr>obj := (obj s)\<lparr>is_running := True,
                            recording_thread := Some RecStarting,
                            processing_thread := Some ProcLoopHead\<rparr>,
             trace := trace s @
               [Main (Print (nl @ ''Real-time translation started (English ''
                        @ [CHR 0xE2, CHR 0x86, CHR 0x92] @ '' Spanish)'')),
                Main (Print (''Start speaking... Press '' @ [CHR 0x27] @ ''q'' @ [CHR 0x27]
                        @ '' to quit'' @ nl)),
                Main (Print (replicate 80 (CHR ''='')))]\<rparr>)"

text \<open>
  \<^verbatim>\<open>Thread.join()\<close> returns when the thread has ended. While the caller waits the other
  threads take their steps, here the steps of a schedule; \<open>None\<close> says that the schedule
  ran out with the thread still alive, so the call has not returned.
\<close>

definition rec_alive :: "state \<Rightarrow> bool" where
  "rec_alive s = (recording_thread (obj s) = Some RecStarting
                  \<or> recording_thread (obj s) = Some RecStreaming)"

definition proc_alive :: "state \<Rightarrow> bool" where
  "proc_alive s = (processing_thread (obj s) \<noteq> None
                   \<and> processing_thread (obj s) \<noteq> Some ProcExited)"

fun join :: "(state \<Rightarrow> bool) \<Rightarrow> extern \<Rightarrow> action list \<Rightarrow> state \<Rightarrow> (state \<times> action list) option" where
  "join alive L [] s = (if alive s then None else Some (s, []))"
| "join alive L (a # sched) s =
     (if alive s then join alive L sched (step L a s) else Some (s, a # sched))"

text \<open>
  \<^verbatim>\<open>stop\<close> (lines 195 to 209): the state when it returns and what is left of the
  schedule, or \<open>None\<close> when it has not returned. Lines 200 and 201 are \<open>signal_stop\<close>.
\<close>

definition signal_stop :: "state \<Rightarrow> state" where
  "signal_stop s =
     s\<lparr>obj := (obj s)\<lparr>is_running := False\<rparr>,
       trace := trace s @ [Main (Print (nl @ '' Stopping translation...''))]\<rparr>"

definition stop :: "extern \<Rightarrow> action list \<Rightarrow> state \<Rightarrow> (state \<times> action list) option" where
  "stop L sched s =
     (if \<not> is_running (obj s) then Some (s, sched)
      else
        (let s2 = signal_stop s
         in (case (if recording_thread (obj s2) \<noteq> None then join rec_alive L sched s2
                   else Some (s2, sched)) of
               None \<Rightarrow> None
             | Some (s3, sched3) \<Rightarrow>
                 (case (if processing_thread (obj s3) \<noteq> None then join proc_alive L sched3 s3
                        else Some (s3, sched3)) of
                    None \<Rightarrow> None
                  | Some (s4, sched4) \<Rightarrow>
                      Some (s4\<lparr>trace := trace s4 @ [Main (Print ''Translation stopped'')]\<rparr>,
                            sched4)))))"

section \<open>Predicates of the claims\<close>

text \<open>
  The recognition stage fails when any call of \<^verbatim>\<open>_transcribe_chunk\<close> raises; the
  translation stage fails when a call of \<^verbatim>\<open>_translate_text\<close> raises.
\<close>

definition recognition_fails :: "translator \<Rightarrow> chunk_env \<Rightarrow> bool" where
  "recognition_fails self env =
     (isl (tmp_file env) \<or> sample_rate self = 0 \<or> wav_write env \<noteq> None \<or> isl (whisper env))"

definition translation_fails :: "chunk_env \<Rightarrow> bool" where
  "translation_fails env = isl (ollama env)"

definition recognition_times_out :: "translator \<Rightarrow> chunk_env \<Rightarrow> bool" where
  "recognition_times_out self env =
     (\<not> isl (tmp_file env) \<and> sample_rate self \<noteq> 0 \<and> wav_write env = None
      \<and> whisper env = Inl TimeoutExpired)"

definition translation_reached :: "translator \<Rightarrow> chunk_env \<Rightarrow> bool" where
  "translation_reached self env =
     (\<not> recognition_fails self env
      \<and> (case whisper env of
            Inl e \<Rightarrow> False
          | Inr stdout \<Rightarrow> strip stdout \<noteq> [] \<and> \<not> contains BLANK_AUDIO (strip stdout)))"

fun is_emission :: "event \<Rightarrow> bool" where
  "is_emission (PrintWrapped t) = True"
| "is_emission e = False"

fun is_subprocess :: "event \<Rightarrow> bool" where
  "is_subprocess (Subprocess cmd) = True"
| "is_subprocess e = False"

fun is_request :: "event \<Rightarrow> bool" where
  "is_request (HttpPost p) = True"
| "is_request e = False"

fun is_diagnostic :: "event \<Rightarrow> bool" where
  "is_diagnostic (Print t) = True"
| "is_diagnostic (PrintErr t) = True"
| "is_diagnostic (Traceback e) = True"
| "is_diagnostic e = False"

text \<open>What processing one chunk does to the outside, from a file system \<open>fs\<close>.\<close>

definition chunk_events :: "extern \<Rightarrow> translator \<Rightarrow> chunk_env \<Rightarrow> chunk \<Rightarrow> filesystem \<Rightarrow> event list" where
  "chunk_events L self env c fs = out (process_chunk L self env c \<lparr>files = fs, out = []\<rparr>)"

definition timeout_line :: "exn \<Rightarrow> event list" where
  "timeout_line e = (if e = TimeoutExpired then [Print (nl @ ''Transcription timeout'')] else [])"

text \<open>
  No event of a chunk comes after the \<^verbatim>\<open>get\<close> of a later chunk: every event tagged \<open>n\<close>
  that follows \<open>Get m\<close> in the trace has \<open>m \<le> n\<close>.
\<close>

fun ordered :: "sys_event list \<Rightarrow> bool" where
  "ordered [] = True"
| "ordered (Get m c # tr) = ((\<forall>n e. During n e \<in> set tr \<longrightarrow> m \<le> n) \<and> ordered tr)"
| "ordered (e # tr) = ordered tr"

text \<open>
  The invariant of the queue: the blocks put are numbered from zero, they are the blocks
  got followed by the blocks that wait, the trace is ordered, and the chunk in hand is
  the latest one got.
\<close>

definition fifo_inv :: "state \<Rightarrow> bool" where
  "fifo_inv s =
     (map fst (puts (trace s)) = [0..<length (puts (trace s))]
      \<and> puts (trace s) = gets (trace s) @ audio_queue (obj s)
      \<and> ordered (trace s)
      \<and> (\<forall>n c. processing_thread (obj s) = Some (ProcBusy n c) \<longrightarrow>
            (\<forall>m c'. (m, c') \<in> set (gets (trace s)) \<longrightarrow> m \<le> n)))"

section \<open>Concrete inputs\<close>

text \<open>
  A resampler that repeats or skips samples and a cast that sends what is out of range to
  zero stand for the library; a file system with the binary and the model; the object
  \<^verbatim>\<open>__init__\<close> builds there; a chunk of three frames; answers of the outside.
\<close>

definition extern0 :: extern where
  "extern0 = \<lparr>resample = (\<lambda>xs n. map (\<lambda>i. if xs = [] then 0 else xs ! ((i * length xs) div n)) [0..<n]),
              astype_out_of_range = (\<lambda>x. 0)\<rparr>"

definition mpath0 :: string where
  "mpath0 = ''/w/models/m.bin''"

definition fs0 :: filesystem where
  "fs0 = [''/w/build/bin/whisper-cli'' \<mapsto> Opaque, ''/w/models/m.bin'' \<mapsto> Opaque]"

definition self0 :: translator where
  "self0 = \<lparr>is_running = False, sample_rate = 44100, target_sample_rate = 16000,
            chunk_duration = 2, audio_queue = [], model_path = ''/w/models/m.bin'',
            binary_path = ''/w/build/bin/whisper-cli'', recording_thread = None,
            processing_thread = None\<rparr>"

definition state0 :: state where
  "state0 = \<lparr>obj = self0, disk = fs0, trace = []\<rparr>"

definition world0 :: world where
  "world0 = \<lparr>files = fs0, out = []\<rparr>"

definition chunk0 :: chunk where
  "chunk0 = [[0], [1/4], [1/2]]"

definition chunk1 :: chunk where
  "chunk1 = [[1], [0], [- 1]]"

definition env_blank :: chunk_env where
  "env_blank = \<lparr>tmp_file = Inr ''/tmp/a.wav'', wav_write = None,
                whisper = Inr ('' [BLANK_AUDIO]'' @ nl), ollama = Inr ''hola''\<rparr>"

definition env_hello :: chunk_env where
  "env_hello = \<lparr>tmp_file = Inr ''/tmp/b.wav'', wav_write = None,
                whisper = Inr ('' hello'' @ nl), ollama = Inr ''hola''\<rparr>"

definition env_crash :: chunk_env where
  "env_crash = \<lparr>tmp_file = Inr ''/tmp/a.wav'', wav_write = None,
                whisper = Inl CalledProcessError, ollama = Inr ''hola''\<rparr>"

definition env_timeout :: chunk_env where
  "env_timeout = \<lparr>tmp_file = Inr ''/tmp/c.wav'', wav_write = None,
                  whisper = Inl TimeoutExpired, ollama = Inr ''hola''\<rparr>"

text \<open>
  The processing thread holds chunk 0, chunk 1 waits in the queue: the state after
  \<^verbatim>\<open>start\<close>, the opening of the device, two callbacks and a \<^verbatim>\<open>get\<close>.
\<close>

definition sched_busy :: "action list" where
  "sched_busy = [RecOpen True, Callback None chunk0, Callback None chunk1, ProcTest, ProcGet]"

definition busy0 :: state where
  "busy0 = run extern0 sched_busy (start state0)"

text \<open>
  A second object and a second world, which differ from the first in everything but the
  two rates: the flag, the queue, the paths, the files, what was printed.
\<close>

definition other_self :: translator where
  "other_self = \<lparr>is_running = True, sample_rate = 44100, target_sample_rate = 16000,
            chunk_duration = 5, audio_queue = [(7, chunk1)], model_path = ''/x/y/z.bin'',
            binary_path = ''/x/build/bin/whisper-cli'', recording_thread = Some RecStreaming,
            processing_thread = Some (ProcBusy 6 chunk0)\<rparr>"

definition other_world :: world where
  "other_world = \<lparr>files = Map.empty, out = [Print ''earlier'']\<rparr>"

text \<open>What happens while \<^verbatim>\<open>stop\<close> waits, and a run that processes two chunks.\<close>

definition sched_stop :: "action list" where
  "sched_stop = [ProcFinish env_crash, RecPoll, ProcTest]"

definition sched_two :: "action list" where
  "sched_two = sched_busy @ [ProcFinish env_hello, ProcTest, ProcGet]"

section \<open>Facts about the concrete inputs\<close>

lemma binary_path0: "binary_path_of mpath0 = ''/w/build/bin/whisper-cli''"
  by (simp add: binary_path_of_def dirname_def path_join_def join2_def mpath0_def)

lemma boot0: "boot fs0 mpath0 = Inr state0"
  by (simp add: boot_def init_def binary_path0 os_path_exists_def fs0_def self0_def state0_def)
     (simp add: mpath0_def)

lemmas busy0_defs = busy0_def sched_busy_def start_def state0_def self0_def rec_open_def
  callback_def proc_test_def proc_get_def Let_def

lemma busy0_thread: "processing_thread (obj busy0) = Some (ProcBusy 0 chunk0)"
  by (simp add: busy0_defs)

lemma busy0_queue: "audio_queue (obj busy0) = [(1, chunk1)]"
  by (simp add: busy0_defs)

lemma busy0_running: "is_running (obj busy0)"
  by (simp add: busy0_defs)

section \<open>One chunk\<close>

text \<open>
  \<^verbatim>\<open>_transcribe_chunk\<close> as a table: what it returns and what it leaves behind, by what
  the outside answered.
\<close>

lemma transcribe_chunk_eq:
  "transcribe_chunk L self env c w =
     (case tmp_file env of
        Inl e \<Rightarrow> (Inl UnboundLocalError, w\<lparr>out := out w @ timeout_line e\<rparr>)
      | Inr tmp \<Rightarrow>
          if sample_rate self = 0 then (Inr None, w\<lparr>files := (files w)(tmp := None)\<rparr>)
          else (case wav_write env of
                  Some e \<Rightarrow> (Inr None, w\<lparr>files := (files w)(tmp := None),
                                          out := out w @ timeout_line e\<rparr>)
                | None \<Rightarrow>
                    (case whisper env of
                       Inl e \<Rightarrow>
                         (Inr None,
                          w\<lparr>files := (files w)(tmp := None),
                            out := out w @ Subprocess (whisper_cmd self tmp) # timeout_line e\<rparr>)
                     | Inr stdout \<Rightarrow>
                         (Inr (if strip stdout \<noteq> [] then Some (strip stdout) else None),
                          w\<lparr>files := (files w)(tmp := None),
                            out := out w @ [Subprocess (whisper_cmd self tmp)]\<rparr>))))"
  by (auto simp: transcribe_chunk_def transcribe_except_def resample_and_save_def os_remove_def
      os_path_exists_def emit_def Let_def timeout_line_def
      split: sum.split option.split)

lemma startswith_self: "startswith s s"
  by (induction s) auto

lemma contains_self: "contains s s"
  by (cases s) (auto simp: startswith_self)

text \<open>The two tests on strings are the library's prefix and sublist relations.\<close>

lemma startswith_prefix: "startswith s p \<longleftrightarrow> prefix p s"
  by (induction s p rule: startswith.induct) auto

lemma contains_sublist: "contains sub s \<longleftrightarrow> sublist sub s"
  by (induction s) (auto simp: startswith_prefix sublist_Cons_right)

lemma failure_no_emission:
  "recognition_fails self env \<or> translation_fails env \<Longrightarrow>
     filter is_emission (chunk_events L self env c fs) = []"
  by (auto simp: chunk_events_def process_chunk_def transcribe_chunk_eq translate_text_def
      emit_def Let_def timeout_line_def recognition_fails_def translation_fails_def
      split: sum.splits option.splits)

lemma no_retry:
  "length (filter is_subprocess (chunk_events L self env c fs)) \<le> 1
   \<and> length (filter is_request (chunk_events L self env c fs)) \<le> 1"
  by (simp add: chunk_events_def process_chunk_def transcribe_chunk_eq translate_text_def
      emit_def Let_def timeout_line_def print_translation'_def
      split: sum.split option.split)

lemma timeout_logged:
  "recognition_times_out self env \<Longrightarrow>
     Print (nl @ ''Transcription timeout'') \<in> set (chunk_events L self env c fs)"
  by (auto simp: chunk_events_def process_chunk_def transcribe_chunk_eq
      timeout_line_def recognition_times_out_def
      split: sum.splits option.splits)

lemma request_failure_logged:
  "translation_reached self env \<Longrightarrow> ollama env = Inl RequestException \<Longrightarrow>
     Print (nl @ ''Translation error: '' @ str_exn RequestException)
       \<in> set (chunk_events L self env c fs)"
  by (auto simp: chunk_events_def process_chunk_def transcribe_chunk_eq translate_text_def
      emit_def Let_def translation_reached_def recognition_fails_def
      split: sum.splits option.splits)

lemma proc_finish_busy:
  "processing_thread (obj s) = Some (ProcBusy n c) \<Longrightarrow>
     proc_finish L env s =
       s\<lparr>obj := (obj s)\<lparr>processing_thread := Some ProcLoopHead\<rparr>,
         disk := files (process_chunk L (obj s) env c \<lparr>files = disk s, out = []\<rparr>),
         trace := trace s @ map (During n) (chunk_events L (obj s) env c (disk s))\<rparr>"
  by (simp add: proc_finish_def chunk_events_def Let_def)

text \<open>
  C1, as the code has it. When the recognition stage or the translation stage raises
  while a chunk is processed, the processing thread prints no translation for the chunk,
  runs \<^verbatim>\<open>whisper-cli\<close> at most once and posts at most one request (no retry), and stands
  at the head of its loop again with the flag and the queue as they were, so that, while
  the program runs, its next \<^verbatim>\<open>get\<close> takes the next chunk of the queue: nothing reaches
  the main thread. A line is printed when \<^verbatim>\<open>whisper-cli\<close> times out and when the request
  raises a \<^verbatim>\<open>RequestException\<close>.
\<close>

theorem chunk_failure_is_dropped:
  assumes busy: "processing_thread (obj s) = Some (ProcBusy n c)"
    and fails: "recognition_fails (obj s) env \<or> translation_fails env"
  shows "trace (step L (ProcFinish env) s)
           = trace s @ map (During n) (chunk_events L (obj s) env c (disk s))
         \<and> filter is_emission (chunk_events L (obj s) env c (disk s)) = []
         \<and> length (filter is_subprocess (chunk_events L (obj s) env c (disk s))) \<le> 1
         \<and> length (filter is_request (chunk_events L (obj s) env c (disk s))) \<le> 1
         \<and> (recognition_times_out (obj s) env \<longrightarrow>
               Print (nl @ ''Transcription timeout'')
                 \<in> set (chunk_events L (obj s) env c (disk s)))
         \<and> (translation_reached (obj s) env \<and> ollama env = Inl RequestException \<longrightarrow>
               Print (nl @ ''Translation error: '' @ str_exn RequestException)
                 \<in> set (chunk_events L (obj s) env c (disk s)))
         \<and> processing_thread (obj (step L (ProcFinish env) s)) = Some ProcLoopHead
         \<and> is_running (obj (step L (ProcFinish env) s)) = is_running (obj s)
         \<and> audio_queue (obj (step L (ProcFinish env) s)) = audio_queue (obj s)
         \<and> (is_running (obj s) \<longrightarrow>
              (\<forall>m c' q. audio_queue (obj s) = (m, c') # q \<longrightarrow>
                 processing_thread (obj (run L [ProcFinish env, ProcTest, ProcGet] s))
                   = Some (ProcBusy m c')))"
proof -
  let ?evs = "chunk_events L (obj s) env c (disk s)"
  have fin: "proc_finish L env s =
       s\<lparr>obj := (obj s)\<lparr>processing_thread := Some ProcLoopHead\<rparr>,
         disk := files (process_chunk L (obj s) env c \<lparr>files = disk s, out = []\<rparr>),
         trace := trace s @ map (During n) ?evs\<rparr>"
    using busy by (rule proc_finish_busy)
  have 1: "trace (step L (ProcFinish env) s) = trace s @ map (During n) ?evs"
    by (simp add: fin)
  have 2: "filter is_emission ?evs = []"
    using fails by (rule failure_no_emission)
  have 3: "length (filter is_subprocess ?evs) \<le> 1 \<and> length (filter is_request ?evs) \<le> 1"
    by (rule no_retry)
  have 4: "recognition_times_out (obj s) env \<longrightarrow>
             Print (nl @ ''Transcription timeout'') \<in> set ?evs"
    by (simp add: timeout_logged)
  have 5: "translation_reached (obj s) env \<and> ollama env = Inl RequestException \<longrightarrow>
             Print (nl @ ''Translation error: '' @ str_exn RequestException) \<in> set ?evs"
    using request_failure_logged by blast
  have 6: "processing_thread (obj (step L (ProcFinish env) s)) = Some ProcLoopHead"
    by (simp add: fin)
  have 7: "is_running (obj (step L (ProcFinish env) s)) = is_running (obj s)"
    by (simp add: fin)
  have 8: "audio_queue (obj (step L (ProcFinish env) s)) = audio_queue (obj s)"
    by (simp add: fin)
  have 9: "processing_thread (obj (run L [ProcFinish env, ProcTest, ProcGet] s))
             = Some (ProcBusy m c')"
    if "is_running (obj s)" and "audio_queue (obj s) = (m, c') # q" for m c' q
    using that by (simp add: fin proc_test_def proc_get_def)
  from 1 2 3 4 5 6 7 8 9 show ?thesis by blast
qed

theorem chunk_failure_is_dropped_witness:
  "processing_thread (obj busy0) = Some (ProcBusy 0 chunk0)
   \<and> recognition_fails (obj busy0) env_crash
   \<and> filter is_emission (chunk_events extern0 (obj busy0) env_crash chunk0 (disk busy0)) = []
   \<and> processing_thread (obj (run extern0 [ProcFinish env_crash, ProcTest, ProcGet] busy0))
        = Some (ProcBusy 1 chunk1)"
proof -
  have f: "recognition_fails (obj busy0) env_crash \<or> translation_fails env_crash"
    by (simp add: recognition_fails_def env_crash_def)
  then have f': "recognition_fails (obj busy0) env_crash"
    by (simp add: translation_fails_def env_crash_def)
  from chunk_failure_is_dropped [OF busy0_thread f, of extern0] busy0_running busy0_queue
    busy0_thread f'
  show ?thesis by simp
qed

text \<open>
  C1 as stated fails where it says that the worker logs: when \<^verbatim>\<open>whisper-cli\<close> ends with
  a non-zero exit status the clause of line 145 returns \<open>None\<close> and prints nothing, so the
  only event of the chunk is the child process.
\<close>

theorem silent_failure_counterexample:
  "recognition_fails self0 env_crash
   \<and> filter is_diagnostic (chunk_events extern0 self0 env_crash chunk0 fs0) = []
   \<and> chunk_events extern0 self0 env_crash chunk0 fs0
        = [Subprocess (whisper_cmd self0 ''/tmp/a.wav'')]"
  by (simp add: recognition_fails_def chunk_events_def process_chunk_def transcribe_chunk_eq
      timeout_line_def env_crash_def self0_def)

text \<open>
  C2. When the transcription of a chunk is the sentinel \<^verbatim>\<open>[BLANK_AUDIO]\<close>, processing the
  chunk does one thing to the outside, the run of \<^verbatim>\<open>whisper-cli\<close>: no request goes to the
  translation service and nothing is printed.
\<close>

theorem blank_audio_short_circuit:
  assumes "fst (transcribe_chunk L self env c w) = Inr (Some BLANK_AUDIO)"
  shows "\<exists>tmp. out (process_chunk L self env c w) = out w @ [Subprocess (whisper_cmd self tmp)]"
  using assms
  by (auto simp: process_chunk_def transcribe_chunk_eq contains_self timeout_line_def
      split: sum.splits option.splits if_splits)

theorem blank_audio_short_circuit_witness:
  "fst (transcribe_chunk extern0 self0 env_blank chunk0 world0) = Inr (Some BLANK_AUDIO)
   \<and> (\<exists>tmp. out (process_chunk extern0 self0 env_blank chunk0 world0)
         = out world0 @ [Subprocess (whisper_cmd self0 tmp)])"
proof -
  have h: "fst (transcribe_chunk extern0 self0 env_blank chunk0 world0) = Inr (Some BLANK_AUDIO)"
    by (simp add: transcribe_chunk_eq env_blank_def self0_def strip_def isspace_def nl_def
        BLANK_AUDIO_def)
  from blank_audio_short_circuit [OF h] h show ?thesis by simp
qed

section \<open>Quantisation and sizes\<close>

lemma trunc_range:
  "- 32769 < y \<Longrightarrow> y < 32768 \<Longrightarrow> - 32768 \<le> trunc y \<and> trunc y < 32768"
  unfolding trunc_def by (auto simp: le_floor_iff floor_less_iff le_ceiling_iff ceiling_less_iff)

lemma trunc_bounds: "\<bar>y\<bar> \<le> 32767 \<Longrightarrow> - 32767 \<le> trunc y \<and> trunc y \<le> 32767"
  unfolding trunc_def by (auto simp: le_floor_iff ceiling_le_iff floor_le_iff le_ceiling_iff)

lemma sint_in_range: "- 32768 \<le> k \<Longrightarrow> k < 32768 \<Longrightarrow> sint (word_of_int k :: int16) = k"
  by (simp add: sint_sbintrunc' signed_take_bit_int_eq_self)

lemma quantize_in_range:
  assumes "- 32769 < x * 32767" and "x * 32767 < 32768"
  shows "sint (quantize L x) = trunc (x * 32767)"
proof -
  have "quantize L x = word_of_int (trunc (x * 32767))"
    using assms by (simp add: quantize_def astype_int16_def)
  moreover have "- 32768 \<le> trunc (x * 32767) \<and> trunc (x * 32767) < 32768"
    using assms by (rule trunc_range)
  ultimately show ?thesis by (simp add: sint_in_range)
qed

text \<open>
  C3, as the code has it. A sample whose product with 32767 lies strictly between -32769
  and 32768 is quantised to that product with the fractional part discarded: there is no
  rounding to the nearest integer and no clamping step. For a sample in \<open>[-1, 1]\<close> the
  quantised value lies in \<open>[-32767, 32767]\<close>.
\<close>

theorem quantize_truncates:
  "(- 32769 < x * 32767 \<and> x * 32767 < 32768 \<longrightarrow> sint (quantize L x) = trunc (x * 32767))
   \<and> (- 1 \<le> x \<and> x \<le> 1 \<longrightarrow> - 32767 \<le> sint (quantize L x) \<and> sint (quantize L x) \<le> 32767)"
proof (rule conjI; rule impI)
  assume "- 32769 < x * 32767 \<and> x * 32767 < 32768"
  then show "sint (quantize L x) = trunc (x * 32767)"
    by (simp add: quantize_in_range)
next
  assume a: "- 1 \<le> x \<and> x \<le> 1"
  then have b: "\<bar>x * 32767\<bar> \<le> 32767" by (simp add: abs_le_iff)
  then have "- 32767 \<le> trunc (x * 32767) \<and> trunc (x * 32767) \<le> 32767"
    by (rule trunc_bounds)
  moreover have "sint (quantize L x) = trunc (x * 32767)"
    using b by (intro quantize_in_range) (simp_all add: abs_le_iff)
  ultimately show "- 32767 \<le> sint (quantize L x) \<and> sint (quantize L x) \<le> 32767"
    by simp
qed

theorem quantize_truncates_witness:
  "sint (quantize extern0 (- (1/4))) = - 8191
   \<and> - 32767 \<le> sint (quantize extern0 1) \<and> sint (quantize extern0 1) \<le> 32767"
  using quantize_truncates [of "- (1/4)" extern0] quantize_truncates [of 1 extern0]
  by (simp add: trunc_def)

text \<open>
  C3 as stated fails: the sample 1/4 is in range, its product with 32767 is 8191.75, the
  code writes 8191 and rounding gives 8192.
\<close>

theorem quantize_counterexample:
  "sint (quantize extern0 (1/4)) = 8191 \<and> spec_quantize (1/4) = 8192"
  by (simp add: quantize_def astype_int16_def trunc_def spec_quantize_def round_def)

lemma concat_singletons: "\<forall>row\<in>set xs. length row = 1 \<Longrightarrow> length (concat xs) = length xs"
  by (induction xs) auto

text \<open>
  C5. At a sample rate \<open>R > 0\<close> and a chunk duration \<open>D\<close>, a block of the size the program
  asks the driver for, with one channel, holds exactly \<open>R * D\<close> samples, and its resampled
  form holds \<open>16000 * D\<close> samples to within one sample (here: exactly), for a resampler that
  returns as many samples as it is asked for.
\<close>

theorem chunk_sizes:
  assumes "0 < R" and "sample_rate self = R" and "chunk_duration self = D"
    and "target_sample_rate self = 16000"
    and "length indata = chunk_samples self"
    and "\<forall>row\<in>set indata. length row = 1"
    and "\<forall>xs n. length (resample L xs n) = n"
  shows "length (flatten indata) = R * D
         \<and> \<bar>int (length (resampled L self indata)) - int (16000 * D)\<bar> \<le> 1"
proof -
  have a: "length (flatten indata) = R * D"
    using assms by (simp add: flatten_def concat_singletons chunk_samples_def)
  have "length (resampled L self indata) = num_samples_of (R * D) 16000 R"
    using assms a by (simp add: resampled_def Let_def)
  also have "\<dots> = 16000 * D"
    using assms(1) by (simp add: num_samples_of_def)
  finally show ?thesis using a by simp
qed

theorem chunk_sizes_witness:
  "length (flatten (replicate 88200 [0])) = 44100 * 2
   \<and> \<bar>int (length (resampled extern0 self0 (replicate 88200 [0]))) - int (16000 * 2)\<bar> \<le> 1"
  using chunk_sizes [of 44100 self0 2 "replicate 88200 [0]" extern0]
  by (simp add: self0_def extern0_def chunk_samples_def)

text \<open>
  C9. The samples written for a chunk depend on the chunk and the two rates only: two
  calls on the same chunk, from objects with the same rates and otherwise in any state,
  in any world and to any file, write the same PCM16 samples.
\<close>

theorem pcm_deterministic:
  assumes "sample_rate self1 = sample_rate self2"
    and "target_sample_rate self1 = target_sample_rate self2"
    and "resample_and_save L self1 env1 c tmp1 w1 = Inr w1'"
    and "resample_and_save L self2 env2 c tmp2 w2 = Inr w2'"
  shows "files w1' tmp1 = Some (Wav (target_sample_rate self1) (pcm16 L self1 c))
         \<and> files w2' tmp2 = files w1' tmp1"
  using assms
  by (auto simp: resample_and_save_def pcm16_def resampled_def Let_def
      split: if_splits option.splits)

theorem pcm_deterministic_witness:
  "\<not> isl (resample_and_save extern0 self0 env_hello chunk0 ''/tmp/a.wav'' world0)
   \<and> \<not> isl (resample_and_save extern0 other_self env_blank chunk0 ''/tmp/b.wav'' other_world)
   \<and> files (projr (resample_and_save extern0 other_self env_blank chunk0 ''/tmp/b.wav'' other_world))
        ''/tmp/b.wav''
      = files (projr (resample_and_save extern0 self0 env_hello chunk0 ''/tmp/a.wav'' world0))
          ''/tmp/a.wav''"
proof -
  let ?a = "resample_and_save extern0 self0 env_hello chunk0 ''/tmp/a.wav'' world0"
  let ?b = "resample_and_save extern0 other_self env_blank chunk0 ''/tmp/b.wav'' other_world"
  have a: "\<not> isl ?a" by (simp add: resample_and_save_def self0_def env_hello_def)
  have b: "\<not> isl ?b" by (simp add: resample_and_save_def other_self_def env_blank_def)
  have a': "?a = Inr (projr ?a)" using a by simp
  have b': "?b = Inr (projr ?b)" using b by simp
  have r: "sample_rate self0 = sample_rate other_self"
    "target_sample_rate self0 = target_sample_rate other_self"
    by (simp_all add: self0_def other_self_def)
  from pcm_deterministic [OF r a' b'] a b show ?thesis by simp
qed

text \<open>
  C10. When \<^verbatim>\<open>_transcribe_chunk\<close> returns or raises, the temporary file it created is
  gone and every other file is as it was; when \<^verbatim>\<open>NamedTemporaryFile\<close> itself raised no
  file was created and the file system is as it was.
\<close>

theorem tmp_file_removed:
  assumes "transcribe_chunk L self env c w = (r, w')"
  shows "case tmp_file env of
           Inl e \<Rightarrow> files w' = files w
         | Inr tmp \<Rightarrow> files w' tmp = None \<and> (\<forall>p. p \<noteq> tmp \<longrightarrow> files w' p = files w p)"
  using assms
  by (auto simp: transcribe_chunk_eq split: sum.splits option.splits if_splits)

theorem tmp_file_removed_witness:
  "files (snd (transcribe_chunk extern0 self0 env_timeout chunk0 world0)) ''/tmp/c.wav'' = None
   \<and> files (snd (transcribe_chunk extern0 self0 env_timeout chunk0 world0)) ''/w/models/m.bin''
       = Some Opaque
   \<and> files (snd (transcribe_chunk extern0 self0 env_hello chunk0 world0)) ''/tmp/b.wav'' = None"
  using
    tmp_file_removed [of extern0 self0 env_timeout chunk0 world0
      "fst (transcribe_chunk extern0 self0 env_timeout chunk0 world0)"
      "snd (transcribe_chunk extern0 self0 env_timeout chunk0 world0)"]
    tmp_file_removed [of extern0 self0 env_hello chunk0 world0
      "fst (transcribe_chunk extern0 self0 env_hello chunk0 world0)"
      "snd (transcribe_chunk extern0 self0 env_hello chunk0 world0)"]
  by (auto simp: env_timeout_def env_hello_def world0_def fs0_def)

section \<open>The threads together\<close>

lemmas step_defs = rec_open_def rec_poll_def callback_def proc_test_def proc_get_def
  proc_finish_def Let_def

lemma step_is_running: "is_running (obj (step L a s)) = is_running (obj s)"
  by (cases a) (auto simp: step_defs split: option.splits list.splits proc_thread.splits)

lemma run_is_running: "is_running (obj (run L sched s)) = is_running (obj s)"
  by (induction sched arbitrary: s) (simp_all add: step_is_running)

lemma step_rec_exited:
  "recording_thread (obj s) = Some RecExited \<Longrightarrow>
     recording_thread (obj (step L a s)) = Some RecExited"
  by (cases a) (auto simp: step_defs split: option.splits list.splits proc_thread.splits)

lemma run_rec_exited:
  "recording_thread (obj s) = Some RecExited \<Longrightarrow>
     recording_thread (obj (run L sched s)) = Some RecExited"
  by (induction sched arbitrary: s) (simp_all add: step_rec_exited)

lemma step_rec_some:
  "recording_thread (obj s) \<noteq> None \<Longrightarrow> recording_thread (obj (step L a s)) \<noteq> None"
  by (cases a) (auto simp: step_defs split: option.splits list.splits proc_thread.splits)

lemma run_rec_some:
  "recording_thread (obj s) \<noteq> None \<Longrightarrow> recording_thread (obj (run L sched s)) \<noteq> None"
proof (induction sched arbitrary: s)
  case Nil
  then show ?case by simp
next
  case (Cons a sched)
  from Cons.prems have "recording_thread (obj (step L a s)) \<noteq> None" by (rule step_rec_some)
  then have "recording_thread (obj (run L sched (step L a s))) \<noteq> None" by (rule Cons.IH)
  then show ?case by simp
qed

lemma step_proc_some:
  "processing_thread (obj s) \<noteq> None \<Longrightarrow> processing_thread (obj (step L a s)) \<noteq> None"
  by (cases a) (auto simp: step_defs split: option.splits list.splits proc_thread.splits)

lemma run_proc_some:
  "processing_thread (obj s) \<noteq> None \<Longrightarrow> processing_thread (obj (run L sched s)) \<noteq> None"
proof (induction sched arbitrary: s)
  case Nil
  then show ?case by simp
next
  case (Cons a sched)
  from Cons.prems have "processing_thread (obj (step L a s)) \<noteq> None" by (rule step_proc_some)
  then have "processing_thread (obj (run L sched (step L a s))) \<noteq> None" by (rule Cons.IH)
  then show ?case by simp
qed

lemma run_append: "run L (xs @ ys) s = run L ys (run L xs s)"
  by (induction xs arbitrary: s) simp_all

text \<open>
  A \<^verbatim>\<open>join\<close> that returned waited for steps of the schedule, the ones it used up, until
  the thread had ended.
\<close>

lemma join_Some:
  "join alive L sched s = Some (s', rest) \<Longrightarrow>
     \<not> alive s' \<and> (\<exists>pre. sched = pre @ rest \<and> s' = run L pre s)"
proof (induction sched arbitrary: s)
  case Nil
  then show ?case by (auto split: if_splits)
next
  case (Cons a sched)
  show ?case
  proof (cases "alive s")
    case True
    with Cons.prems have "join alive L sched (step L a s) = Some (s', rest)" by simp
    from Cons.IH [OF this] obtain pre where "\<not> alive s'" and "sched = pre @ rest"
      and "s' = run L pre (step L a s)"
      by blast
    then have "a # sched = (a # pre) @ rest \<and> s' = run L (a # pre) s" by simp
    with \<open>\<not> alive s'\<close> show ?thesis by blast
  next
    case False
    with Cons.prems have "s' = s" and "rest = a # sched" by simp_all
    then have "a # sched = [] @ rest \<and> s' = run L [] s" by simp
    with False \<open>s' = s\<close> show ?thesis by blast
  qed
qed

text \<open>
  The only step that takes the processing thread away from a chunk it holds is the return
  of the calls it made for it: a thread that held a chunk and has ended went through it.
\<close>

lemma step_busy_stays:
  "processing_thread (obj s) = Some (ProcBusy n c) \<Longrightarrow> \<forall>env. a \<noteq> ProcFinish env \<Longrightarrow>
     processing_thread (obj (step L a s)) = Some (ProcBusy n c)"
  by (cases a) (auto simp: step_defs split: option.splits)

lemma busy_settles:
  assumes "processing_thread (obj s) = Some (ProcBusy n c)"
    and "processing_thread (obj (run L sched s)) = Some ProcExited"
  shows "\<exists>pre env post. sched = pre @ ProcFinish env # post
           \<and> processing_thread (obj (run L pre s)) = Some (ProcBusy n c)"
  using assms
proof (induction sched arbitrary: s)
  case Nil
  then show ?case by simp
next
  case (Cons a sched)
  show ?case
  proof (cases "\<exists>env. a = ProcFinish env")
    case True
    then obtain env where "a = ProcFinish env" by blast
    with Cons.prems(1) have "a # sched = [] @ ProcFinish env # sched
        \<and> processing_thread (obj (run L [] s)) = Some (ProcBusy n c)" by simp
    then show ?thesis by blast
  next
    case False
    with Cons.prems(1) have "processing_thread (obj (step L a s)) = Some (ProcBusy n c)"
      by (simp add: step_busy_stays)
    moreover from Cons.prems(2)
    have "processing_thread (obj (run L sched (step L a s))) = Some ProcExited"
      by simp
    ultimately obtain pre env post where "sched = pre @ ProcFinish env # post"
      and "processing_thread (obj (run L pre (step L a s))) = Some (ProcBusy n c)"
      using Cons.IH by blast
    then have "a # sched = (a # pre) @ ProcFinish env # post
        \<and> processing_thread (obj (run L (a # pre) s)) = Some (ProcBusy n c)" by simp
    then show ?thesis by blast
  qed
qed

text \<open>
  \<^verbatim>\<open>stop\<close> does return when the threads get their turns: one step of each kind is
  enough, whatever the threads were doing.
\<close>

lemma stop_returns:
  assumes "recording_thread (obj s) \<noteq> None" and "processing_thread (obj s) \<noteq> None"
  shows "stop L [RecOpen device_ok, RecPoll, ProcGet, ProcFinish env, ProcTest] s \<noteq> None"
proof -
  obtain r where r: "recording_thread (obj s) = Some r" using assms(1) by blast
  obtain p where p: "processing_thread (obj s) = Some p" using assms(2) by blast
  show ?thesis
    by (cases r; cases p; cases "audio_queue (obj s)"; cases device_ok)
       (auto simp: stop_def signal_stop_def r p rec_alive_def proc_alive_def step_defs
          split: option.splits list.splits proc_thread.splits)
qed

text \<open>
  C6. \<^verbatim>\<open>stop\<close> on an object that is not running returns at once and changes nothing.
  After \<^verbatim>\<open>start\<close> and whatever the threads then did, a \<^verbatim>\<open>stop\<close> that has returned leaves
  both threads ended, the recording thread and the processing thread; and when the
  processing thread held a chunk as \<^verbatim>\<open>stop\<close> was called, the calls it had made for that
  chunk came back in the time \<^verbatim>\<open>stop\<close> waited, before it returned.
\<close>

theorem stop_joins_both_workers:
  "(\<not> is_running (obj s) \<longrightarrow> stop L sched s = Some (s, sched))
   \<and> (\<not> is_running (obj s0) \<and> stop L sched2 (run L sched1 (start s0)) = Some (s', rest) \<longrightarrow>
        recording_thread (obj s') = Some RecExited
        \<and> processing_thread (obj s') = Some ProcExited
        \<and> \<not> is_running (obj s')
        \<and> (\<forall>n c. processing_thread (obj (run L sched1 (start s0))) = Some (ProcBusy n c) \<longrightarrow>
              (\<exists>pre env post.
                 sched2 = pre @ ProcFinish env # post @ rest
                 \<and> processing_thread (obj (run L pre (signal_stop (run L sched1 (start s0)))))
                     = Some (ProcBusy n c))))"
proof (rule conjI; rule impI)
  assume "\<not> is_running (obj s)"
  then show "stop L sched s = Some (s, sched)" by (simp add: stop_def)
next
  assume a: "\<not> is_running (obj s0) \<and> stop L sched2 (run L sched1 (start s0)) = Some (s', rest)"
  define s1 where "s1 = run L sched1 (start s0)"
  define s2 where "s2 = signal_stop s1"
  have run1: "is_running (obj s1)"
    using a by (simp add: s1_def run_is_running start_def)
  have "recording_thread (obj (start s0)) \<noteq> None"
    using a by (simp add: start_def)
  then have rec1: "recording_thread (obj s1) \<noteq> None"
    unfolding s1_def by (rule run_rec_some)
  have "processing_thread (obj (start s0)) \<noteq> None"
    using a by (simp add: start_def)
  then have proc1: "processing_thread (obj s1) \<noteq> None"
    unfolding s1_def by (rule run_proc_some)
  have rec2: "recording_thread (obj s2) \<noteq> None"
    using rec1 by (simp add: s2_def signal_stop_def)
  have proc2: "processing_thread (obj s2) \<noteq> None"
    using proc1 by (simp add: s2_def signal_stop_def)
  have stopped2: "\<not> is_running (obj s2)" by (simp add: s2_def signal_stop_def)
  from a have st: "stop L sched2 s1 = Some (s', rest)" by (simp add: s1_def)
  from st run1 rec2 obtain s3 sched3 where
    j1: "join rec_alive L sched2 s2 = Some (s3, sched3)"
    by (auto simp: stop_def s2_def Let_def split: option.splits)
  from st run1 rec2 j1 obtain s4 where
    j2: "(if processing_thread (obj s3) \<noteq> None then join proc_alive L sched3 s3
          else Some (s3, sched3)) = Some (s4, rest)" and
    s': "s' = s4\<lparr>trace := trace s4 @ [Main (Print ''Translation stopped'')]\<rparr>"
    by (auto simp: stop_def s2_def [symmetric] Let_def split: option.splits)
  from join_Some [OF j1] obtain pre3 where d3: "\<not> rec_alive s3"
    and c3: "sched2 = pre3 @ sched3" and r3: "s3 = run L pre3 s2"
    by blast
  have rec3: "recording_thread (obj s3) \<noteq> None"
    unfolding r3 using rec2 by (rule run_rec_some)
  have proc3: "processing_thread (obj s3) \<noteq> None"
    unfolding r3 using proc2 by (rule run_proc_some)
  have e3: "recording_thread (obj s3) = Some RecExited"
    using d3 rec3
    by (cases "recording_thread (obj s3)") (auto simp: rec_alive_def intro: rec_thread.exhaust)
  from j2 proc3 have j2': "join proc_alive L sched3 s3 = Some (s4, rest)" by auto
  from join_Some [OF j2'] obtain pre4 where d4: "\<not> proc_alive s4"
    and c4: "sched3 = pre4 @ rest" and r4: "s4 = run L pre4 s3"
    by blast
  have "processing_thread (obj s4) \<noteq> None"
    unfolding r4 using proc3 by (rule run_proc_some)
  with d4 have e4: "processing_thread (obj s4) = Some ProcExited"
    by (simp add: proc_alive_def)
  have e4': "recording_thread (obj s4) = Some RecExited"
    using e3 by (simp add: r4 run_rec_exited)
  have stopped4: "\<not> is_running (obj s4)"
    using stopped2 by (simp add: r4 r3 run_is_running)
  have whole: "s4 = run L (pre3 @ pre4) s2"
    by (simp add: r4 r3 run_append)
  have settled: "\<exists>pre env post. sched2 = pre @ ProcFinish env # post @ rest
      \<and> processing_thread (obj (run L pre s2)) = Some (ProcBusy n c)"
    if "processing_thread (obj s1) = Some (ProcBusy n c)" for n c
  proof -
    from that have "processing_thread (obj s2) = Some (ProcBusy n c)"
      by (simp add: s2_def signal_stop_def)
    moreover have "processing_thread (obj (run L (pre3 @ pre4) s2)) = Some ProcExited"
      using e4 by (simp only: whole)
    ultimately obtain pre env post where "pre3 @ pre4 = pre @ ProcFinish env # post"
      and b: "processing_thread (obj (run L pre s2)) = Some (ProcBusy n c)"
      using busy_settles by blast
    then have "sched2 = pre @ ProcFinish env # post @ rest"
      by (simp add: c3 c4)
    with b show ?thesis by blast
  qed
  show "recording_thread (obj s') = Some RecExited
        \<and> processing_thread (obj s') = Some ProcExited
        \<and> \<not> is_running (obj s')
        \<and> (\<forall>n c. processing_thread (obj (run L sched1 (start s0))) = Some (ProcBusy n c) \<longrightarrow>
              (\<exists>pre env post.
                 sched2 = pre @ ProcFinish env # post @ rest
                 \<and> processing_thread (obj (run L pre (signal_stop (run L sched1 (start s0)))))
                     = Some (ProcBusy n c)))"
    using e4 e4' stopped4 settled by (simp add: s' s1_def s2_def)
qed

theorem stop_joins_both_workers_witness:
  "\<not> is_running (obj state0)
   \<and> stop extern0 [] state0 = Some (state0, [])
   \<and> stop extern0 sched_stop (run extern0 sched_busy (start state0)) \<noteq> None
   \<and> recording_thread
        (obj (fst (the (stop extern0 sched_stop (run extern0 sched_busy (start state0))))))
       = Some RecExited
   \<and> processing_thread
        (obj (fst (the (stop extern0 sched_stop (run extern0 sched_busy (start state0))))))
       = Some ProcExited"
proof -
  have n: "\<not> is_running (obj state0)" by (simp add: state0_def self0_def)
  have "stop extern0 sched_stop busy0 \<noteq> None"
    by (simp add: stop_def signal_stop_def busy0_defs sched_stop_def rec_alive_def
        proc_alive_def rec_poll_def proc_finish_def process_chunk_def transcribe_chunk_eq
        timeout_line_def env_crash_def)
  then obtain s' rest where
    st: "stop extern0 sched_stop (run extern0 sched_busy (start state0)) = Some (s', rest)"
    by (auto simp: busy0_def)
  from stop_joins_both_workers [where s = state0 and L = extern0 and sched = "[]"
      and ?s0.0 = state0 and ?sched2.0 = sched_stop and ?sched1.0 = sched_busy
      and s' = s' and rest = rest] n st
  have "stop extern0 [] state0 = Some (state0, [])
        \<and> recording_thread (obj s') = Some RecExited
        \<and> processing_thread (obj s') = Some ProcExited"
    by blast
  with n st show ?thesis by simp
qed

section \<open>The order of the chunks\<close>

lemma puts_append: "puts (xs @ ys) = puts xs @ puts ys"
  by (induction xs rule: puts.induct) simp_all

lemma gets_append: "gets (xs @ ys) = gets xs @ gets ys"
  by (induction xs rule: gets.induct) simp_all

lemma puts_During: "puts (map (During n) evs) = []"
  by (induction evs) simp_all

lemma gets_During: "gets (map (During n) evs) = []"
  by (induction evs) simp_all

lemma Get_in_gets: "Get m c \<in> set tr \<longleftrightarrow> (m, c) \<in> set (gets tr)"
  by (induction tr rule: gets.induct) auto

lemma ordered_append:
  "ordered (xs @ ys) \<longleftrightarrow>
     ordered xs \<and> ordered ys
     \<and> (\<forall>m c n e. Get m c \<in> set xs \<and> During n e \<in> set ys \<longrightarrow> m \<le> n)"
  by (induction xs rule: ordered.induct) (simp_all, blast)

lemma ordered_During: "ordered (map (During n) evs)"
  by (induction evs) simp_all

text \<open>In a list numbered from zero, what stands before an entry has a smaller number.\<close>

lemma upt_prefix_less:
  assumes "map fst (xs @ (n, c) # q) = [0..<p]" and "(m, c') \<in> set xs"
  shows "m < n"
proof -
  have "sorted_wrt (<) (map fst (xs @ (n, c) # q))"
    unfolding assms(1) by simp
  then have "\<forall>x\<in>set xs. fst x < n"
    by (simp add: sorted_wrt_append)
  with assms(2) show ?thesis by force
qed

lemma step_fifo_inv: "fifo_inv s \<Longrightarrow> fifo_inv (step L a s)"
proof (cases a)
  case (RecOpen ok)
  assume "fifo_inv s"
  then show ?thesis
    by (auto simp: RecOpen fifo_inv_def rec_open_def puts_append gets_append ordered_append)
next
  case (Callback status indata)
  assume "fifo_inv s"
  then show ?thesis
    by (auto simp: Callback fifo_inv_def callback_def Let_def puts_append gets_append
        ordered_append split: option.splits)
next
  case RecPoll
  assume "fifo_inv s"
  then show ?thesis by (auto simp: RecPoll fifo_inv_def rec_poll_def)
next
  case ProcTest
  assume "fifo_inv s"
  then show ?thesis by (auto simp: ProcTest fifo_inv_def proc_test_def)
next
  case ProcGet
  assume inv: "fifo_inv s"
  show ?thesis
  proof (cases "processing_thread (obj s) = Some ProcWaiting")
    case False
    with inv show ?thesis by (simp add: ProcGet proc_get_def)
  next
    case True
    show ?thesis
    proof (cases "audio_queue (obj s)")
      case Nil
      with inv True show ?thesis by (auto simp: ProcGet proc_get_def fifo_inv_def)
    next
      case (Cons x q)
      obtain n c where x: "x = (n, c)" by (cases x)
      have less: "\<And>m c'. (m, c') \<in> set (gets (trace s)) \<Longrightarrow> m < n"
        using inv upt_prefix_less [of "gets (trace s)" n c q "length (puts (trace s))"]
        by (auto simp: fifo_inv_def Cons x)
      from inv True show ?thesis
        by (auto simp: ProcGet proc_get_def fifo_inv_def Cons x puts_append gets_append
            ordered_append dest: less)
    qed
  qed
next
  case (ProcFinish env)
  assume inv: "fifo_inv s"
  then show ?thesis
    by (auto simp: ProcFinish fifo_inv_def proc_finish_def Let_def puts_append gets_append
        puts_During gets_During ordered_append ordered_During Get_in_gets
        split: option.splits proc_thread.splits)
qed

lemma run_fifo_inv: "fifo_inv s \<Longrightarrow> fifo_inv (run L sched s)"
  by (induction sched arbitrary: s) (simp_all add: step_fifo_inv)

lemma boot_fresh:
  "boot fs mpath = Inr s0 \<Longrightarrow>
     trace s0 = [] \<and> audio_queue (obj s0) = [] \<and> \<not> is_running (obj s0)"
  by (auto simp: boot_def init_def Let_def split: if_splits)

lemma start_fifo_inv: "boot fs mpath = Inr s0 \<Longrightarrow> fifo_inv (start s0)"
  by (drule boot_fresh) (simp add: fifo_inv_def start_def)

text \<open>
  C7. In every run after \<^verbatim>\<open>start\<close> on a new object, the chunks the processing thread has
  taken off the queue are, in the same order, the first of the chunks the callback has
  put on it, which are numbered from zero in the order of their arrival; and whatever
  the thread does for chunk \<open>n\<close>, the printing of its translation included, stands in the
  trace before the \<^verbatim>\<open>get\<close> of any later chunk: an event of chunk \<open>n\<close> that follows the
  \<^verbatim>\<open>get\<close> of chunk \<open>m\<close> has \<open>m \<le> n\<close>.
\<close>

theorem fifo_order:
  assumes "boot fs mpath = Inr s0" and "s = run L sched (start s0)"
  shows "prefix (gets (trace s)) (puts (trace s))
         \<and> map fst (puts (trace s)) = [0..<length (puts (trace s))]
         \<and> (\<forall>xs m c ys n e zs.
               trace s = xs @ Get m c # ys @ During n e # zs \<longrightarrow> m \<le> n)"
proof -
  have inv: "fifo_inv s"
    unfolding assms(2) using assms(1) by (intro run_fifo_inv start_fifo_inv)
  then have "puts (trace s) = gets (trace s) @ audio_queue (obj s)"
    unfolding fifo_inv_def by blast
  then have "prefix (gets (trace s)) (puts (trace s))"
    by (rule prefixI)
  moreover have "map fst (puts (trace s)) = [0..<length (puts (trace s))]"
    using inv unfolding fifo_inv_def by blast
  moreover have "m \<le> n" if "trace s = xs @ Get m c # ys @ During n e # zs" for xs m c ys n e zs
  proof -
    from inv have "ordered (trace s)"
      unfolding fifo_inv_def by blast
    then have "ordered (xs @ Get m c # ys @ During n e # zs)"
      by (simp add: that)
    then show ?thesis by (simp add: ordered_append)
  qed
  ultimately show ?thesis by blast
qed

lemma two_chunks_trace:
  "trace (run extern0 sched_two (start state0)) =
     trace (start state0) @
     [Put 0 chunk0, Put 1 chunk1, Get 0 chunk0,
      During 0 (Subprocess (whisper_cmd self0 ''/tmp/b.wav'')),
      During 0 (HttpPost (prompt ''hello'')),
      During 0 (PrintWrapped '' hola''),
      Get 1 chunk1]"
  by (simp add: sched_two_def busy0_defs proc_finish_def process_chunk_def transcribe_chunk_eq
      translate_text_def print_translation'_def emit_def env_hello_def strip_def isspace_def
      nl_def BLANK_AUDIO_def whisper_cmd_def)

theorem fifo_order_witness:
  "boot fs0 mpath0 = Inr state0
   \<and> gets (trace (run extern0 sched_two (start state0))) = [(0, chunk0), (1, chunk1)]
   \<and> prefix (gets (trace (run extern0 sched_two (start state0))))
        (puts (trace (run extern0 sched_two (start state0))))"
proof -
  have g: "gets (trace (run extern0 sched_two (start state0))) = [(0, chunk0), (1, chunk1)]"
    by (simp add: two_chunks_trace gets_append) (simp add: start_def state0_def)
  from fifo_order [OF boot0 refl, of extern0 sched_two]
  have "prefix (gets (trace (run extern0 sched_two (start state0))))
          (puts (trace (run extern0 sched_two (start state0))))"
    by blast
  with g boot0 show ?thesis by blast
qed

section \<open>Starting up\<close>

text \<open>
  C8, as the code has it. When the binary or the model file is missing, the constructor
  prints which path was not found and exits with status 1: there is no object, and
  nothing runs.
\<close>

theorem startup_refused:
  "(\<not> os_path_exists fs (binary_path_of mpath) \<longrightarrow>
      boot fs mpath = Inl (1, [Print (''Binary not found: '' @ binary_path_of mpath)]))
   \<and> (os_path_exists fs (binary_path_of mpath) \<and> \<not> os_path_exists fs mpath \<longrightarrow>
      boot fs mpath = Inl (1, [Print (''Model not found: '' @ mpath)]))"
  by (simp add: boot_def init_def)

theorem startup_refused_witness:
  "\<not> os_path_exists Map.empty (binary_path_of mpath0)
   \<and> boot Map.empty mpath0 = Inl (1, [Print ''Binary not found: /w/build/bin/whisper-cli''])
   \<and> os_path_exists (fs0(mpath0 := None)) (binary_path_of mpath0)
   \<and> \<not> os_path_exists (fs0(mpath0 := None)) mpath0
   \<and> boot (fs0(mpath0 := None)) mpath0 = Inl (1, [Print ''Model not found: /w/models/m.bin''])"
  using startup_refused [of Map.empty mpath0] startup_refused [of "fs0(mpath0 := None)" mpath0]
  by (simp add: binary_path0 os_path_exists_def fs0_def) (simp add: mpath0_def)

text \<open>
  C8 as stated fails for the audio device: \<^verbatim>\<open>start\<close> has set the flag and returned before
  the recording thread opens the device, so when the device cannot be opened that thread
  ends and the program is in the running state, with the processing thread at its loop.
\<close>

theorem device_failure_counterexample:
  "boot fs0 mpath0 = Inr state0
   \<and> recording_thread (obj (step extern0 (RecOpen False) (start state0))) = Some RecExited
   \<and> is_running (obj (step extern0 (RecOpen False) (start state0)))
   \<and> processing_thread (obj (step extern0 (RecOpen False) (start state0)))
       = Some ProcLoopHead"
  by (simp add: boot0) (simp add: start_def state0_def self0_def rec_open_def)

end
